theory Spec2Isabelle
  imports Main "HOL-Library.Multiset" "HOL-Library.Char_ord" "HOL-Library.List_Lexorder"
    "HOL-Library.Product_Lexorder"
begin

section \<open>Domain types (types.ts)\<close>

text \<open>
  The enum \<open>AppointmentStatus\<close>, the interfaces \<open>ChatMessage\<close>, \<open>Appointment\<close> and
  \<open>NewAppointmentDTO\<close>. An optional member (\<open>f?: T\<close>) is a \<open>T option\<close>, \<open>None\<close> standing
  for a member that is absent from the object. Numbers that hold epoch milliseconds are
  integers. A string is a list of code units; the 8-bit \<open>char\<close> covers the code units
  below 256.

  The member \<open>id\<close> clashes with the identity function of HOL and \<open>text\<close> with a keyword,
  so they are called \<open>appt_id\<close>, \<open>msg_id\<close> and \<open>msg_text\<close>. A document of the store keeps
  every member of \<open>Appointment\<close> but the id, which is the document's key: \<open>AppointmentData\<close>
  is the document, and \<open>Appointment\<close> extends it by the id, as
  \<^verbatim>\<open>{ id: docSnap.id, ...docSnap.data() }\<close> does.
\<close>

datatype AppointmentStatus = SCHEDULED | COMPLETED | CANCELLED

datatype Sender = Doctor | Patient

record ChatMessageNoId =
  sender :: Sender
  msg_text :: string
  timestamp :: int

record ChatMessage = ChatMessageNoId +
  msg_id :: string

record NewAppointmentDTO =
  patientName :: string
  patientEmail :: string
  patientPhone :: string
  date :: string
  time :: string
  treatmentType :: string

record AppointmentData =
  patientName :: string
  patientEmail :: "string option"
  patientPhone :: "string option"
  date :: string
  time :: string
  treatmentType :: string
  status :: AppointmentStatus
  doctorNotes :: "string option"
  patientComments :: "string option"
  cancellationReason :: "string option"
  messages :: "ChatMessage list option"
  createdAt :: int

record Appointment = AppointmentData +
  appt_id :: string

definition with_id :: "string \<Rightarrow> AppointmentData \<Rightarrow> Appointment" where
  \<comment> \<open>\<^verbatim>\<open>{ id: doc.id, ...doc.data() }\<close>\<close>
  "with_id i d = AppointmentData.extend d (Appointment.fields i)"

section \<open>The document store (firebase/firestore, as storageService.ts uses it)\<close>

text \<open>
  The store is an external collaborator. Its one collection, \<open>appointments\<close>, is a map
  from document ids to documents. A request can fail for reasons outside the program
  (network, permissions, a malformed reference): the \<open>fault\<close> argument of each primitive
  is the environment's choice, \<open>None\<close> when the request goes through, and the error code
  otherwise. The errors the primitives raise by themselves are written out.
\<close>

datatype firestore_error =
  PermissionDenied | Unavailable | NotFound | InvalidArgument | AlreadyExists
  | OtherCode string

type_synonym fault = "firestore_error option"

type_synonym collection = "string \<rightharpoonup> AppointmentData"

text \<open>
  firebase.ts: \<^verbatim>\<open>export const db = getFirestore(app)\<close>, the default settings, under which
  a member whose value is \<open>undefined\<close> is refused; \<open>ignoreUndefinedProperties\<close> would
  skip such a member instead.
\<close>

record firestore =
  ignoreUndefinedProperties :: bool

definition db :: firestore where
  "db = \<lparr>ignoreUndefinedProperties = False\<rparr>"

text \<open>
  An update is a \<open>Partial<Appointment>\<close>: an object literal with some of the members,
  each of which may hold \<open>undefined\<close>; the member \<open>messages\<close> may hold the sentinel
  \<open>arrayUnion(...)\<close>. The literal is the list of its members in the order written.
\<close>

datatype 'a js = Undefined | Defined 'a

datatype messages_value = Messages "ChatMessage list" | arrayUnion "ChatMessage list"

datatype field_update =
    Set_patientName "string js"
  | Set_patientEmail "string js"
  | Set_patientPhone "string js"
  | Set_date "string js"
  | Set_time "string js"
  | Set_treatmentType "string js"
  | Set_status "AppointmentStatus js"
  | Set_doctorNotes "string js"
  | Set_patientComments "string js"
  | Set_cancellationReason "string js"
  | Set_messages "messages_value js"
  | Set_createdAt "int js"

fun is_undefined :: "field_update \<Rightarrow> bool" where
  "is_undefined (Set_patientName v) = (v = Undefined)"
| "is_undefined (Set_patientEmail v) = (v = Undefined)"
| "is_undefined (Set_patientPhone v) = (v = Undefined)"
| "is_undefined (Set_date v) = (v = Undefined)"
| "is_undefined (Set_time v) = (v = Undefined)"
| "is_undefined (Set_treatmentType v) = (v = Undefined)"
| "is_undefined (Set_status v) = (v = Undefined)"
| "is_undefined (Set_doctorNotes v) = (v = Undefined)"
| "is_undefined (Set_patientComments v) = (v = Undefined)"
| "is_undefined (Set_cancellationReason v) = (v = Undefined)"
| "is_undefined (Set_messages v) = (v = Undefined)"
| "is_undefined (Set_createdAt v) = (v = Undefined)"

text \<open>
  \<open>arrayUnion\<close>: each element that the array does not hold yet is added at its end;
  a field that is no array yet becomes the array of the elements.
\<close>

fun array_union :: "'a list \<Rightarrow> 'a list \<Rightarrow> 'a list" where
  "array_union xs [] = xs"
| "array_union xs (e # es) = array_union (if e \<in> set xs then xs else xs @ [e]) es"

definition messages_or_empty :: "AppointmentData \<Rightarrow> ChatMessage list" where
  "messages_or_empty d = (case messages d of None \<Rightarrow> [] | Some ms \<Rightarrow> ms)"

fun apply_update :: "field_update \<Rightarrow> AppointmentData \<Rightarrow> AppointmentData" where
  "apply_update (Set_patientName (Defined v)) d = d\<lparr>AppointmentData.patientName := v\<rparr>"
| "apply_update (Set_patientEmail (Defined v)) d = d\<lparr>AppointmentData.patientEmail := Some v\<rparr>"
| "apply_update (Set_patientPhone (Defined v)) d = d\<lparr>AppointmentData.patientPhone := Some v\<rparr>"
| "apply_update (Set_date (Defined v)) d = d\<lparr>AppointmentData.date := v\<rparr>"
| "apply_update (Set_time (Defined v)) d = d\<lparr>AppointmentData.time := v\<rparr>"
| "apply_update (Set_treatmentType (Defined v)) d = d\<lparr>AppointmentData.treatmentType := v\<rparr>"
| "apply_update (Set_status (Defined v)) d = d\<lparr>status := v\<rparr>"
| "apply_update (Set_doctorNotes (Defined v)) d = d\<lparr>doctorNotes := Some v\<rparr>"
| "apply_update (Set_patientComments (Defined v)) d = d\<lparr>patientComments := Some v\<rparr>"
| "apply_update (Set_cancellationReason (Defined v)) d = d\<lparr>cancellationReason := Some v\<rparr>"
| "apply_update (Set_messages (Defined (Messages ms))) d = d\<lparr>messages := Some ms\<rparr>"
| "apply_update (Set_messages (Defined (arrayUnion es))) d =
     d\<lparr>messages := Some (array_union (messages_or_empty d) es)\<rparr>"
| "apply_update (Set_createdAt (Defined v)) d = d\<lparr>createdAt := v\<rparr>"
| "apply_update _ d = d"

definition merge_fields :: "field_update list \<Rightarrow> AppointmentData \<Rightarrow> AppointmentData" where
  "merge_fields updates d = foldl (\<lambda>acc u. apply_update u acc) d updates"

definition getDoc :: "fault \<Rightarrow> collection \<Rightarrow> string \<Rightarrow> firestore_error + AppointmentData option" where
  "getDoc fault c i = (case fault of Some e \<Rightarrow> Inl e | None \<Rightarrow> Inr (c i))"

text \<open>
  \<open>addDoc\<close> writes under an id that the client generates (\<open>newId\<close>), on the condition
  that no document has it.
\<close>

definition addDoc :: "fault \<Rightarrow> string \<Rightarrow> collection \<Rightarrow> AppointmentData \<Rightarrow> firestore_error + collection" where
  "addDoc fault newId c d =
     (case fault of
        Some e \<Rightarrow> Inl e
      | None \<Rightarrow> (case c newId of Some _ \<Rightarrow> Inl AlreadyExists | None \<Rightarrow> Inr (c(newId \<mapsto> d))))"

text \<open>
  \<open>updateDoc\<close> reads the literal before it sends anything: an \<open>undefined\<close> member makes
  it throw, unless the settings say to skip such members. The write itself fails on a
  document that does not exist, and otherwise merges the members into the document in
  one step.
\<close>

definition updateDoc ::
  "firestore \<Rightarrow> fault \<Rightarrow> collection \<Rightarrow> string \<Rightarrow> field_update list \<Rightarrow> firestore_error + collection" where
  "updateDoc fs fault c i updates =
     (if \<not> ignoreUndefinedProperties fs \<and> list_ex is_undefined updates then Inl InvalidArgument
      else case fault of
        Some e \<Rightarrow> Inl e
      | None \<Rightarrow> (case c i of None \<Rightarrow> Inl NotFound | Some d \<Rightarrow> Inr (c(i \<mapsto> merge_fields updates d))))"

definition deleteDoc :: "fault \<Rightarrow> collection \<Rightarrow> string \<Rightarrow> firestore_error + collection" where
  "deleteDoc fault c i = (case fault of Some e \<Rightarrow> Inl e | None \<Rightarrow> Inr (c(i := None)))"

section \<open>The program's world\<close>

text \<open>
  What the program acts on: the remote collection \<open>appointments\<close> (\<open>store\<close>), the lines
  written with \<open>console.error\<close> (the label and the error), and the dialogs shown with
  \<open>alert\<close>.
\<close>

datatype alert_text =
    NoPermissionToCreate
  | SpecifyTreatment
  | SaveFailed

record world =
  store :: collection
  console :: "(string \<times> firestore_error) list"
  alerts :: "alert_text list"

definition console_error :: "string \<Rightarrow> firestore_error \<Rightarrow> world \<Rightarrow> world" where
  "console_error label e w = w\<lparr>console := console w @ [(label, e)]\<rparr>"

definition alert :: "alert_text \<Rightarrow> world \<Rightarrow> world" where
  "alert a w = w\<lparr>alerts := alerts w @ [a]\<rparr>"

section \<open>Decimal strings\<close>

text \<open>\<open>Date.now().toString()\<close>: the decimal digits of an integer.\<close>

definition digit_char :: "nat \<Rightarrow> char" where
  "digit_char d = ''0123456789'' ! d"

fun digits :: "nat \<Rightarrow> string" where
  "digits n = (if n < 10 then [digit_char n] else digits (n div 10) @ [digit_char (n mod 10)])"

declare digits.simps [simp del]

definition toString :: "int \<Rightarrow> string" where
  "toString n = (if n < 0 then CHR ''-'' # digits (nat (- n)) else digits (nat n))"

section \<open>StorageService (services/storageService.ts)\<close>

text \<open>
  Each operation takes the world and returns its outcome with the new world. The
  outcome of an \<open>async\<close> function is \<open>Inr v\<close> when its promise resolves with \<open>v\<close> and
  \<open>Inl e\<close> when it rejects with \<open>e\<close>. \<open>now\<close> is what \<open>Date.now()\<close> returns inside the call.
\<close>

definition getAppointmentById ::
  "fault \<Rightarrow> string \<Rightarrow> world \<Rightarrow> (firestore_error + Appointment option) \<times> world" where
  "getAppointmentById fault i w =
     (case getDoc fault (store w) i of
        Inr (Some d) \<Rightarrow> (Inr (Some (with_id i d)), w)
      | Inr None \<Rightarrow> (Inr None, w)
      | Inl e \<Rightarrow> (Inr None, console_error ''Error getting document:'' e w))"

definition newAppointment :: "int \<Rightarrow> NewAppointmentDTO \<Rightarrow> AppointmentData" where
  \<comment> \<open>\<^verbatim>\<open>{ ...dto, status: SCHEDULED, createdAt: Date.now(), messages: [] }\<close>\<close>
  "newAppointment now dto =
     \<lparr>AppointmentData.patientName = NewAppointmentDTO.patientName dto,
      patientEmail = Some (NewAppointmentDTO.patientEmail dto),
      patientPhone = Some (NewAppointmentDTO.patientPhone dto),
      date = NewAppointmentDTO.date dto,
      time = NewAppointmentDTO.time dto,
      treatmentType = NewAppointmentDTO.treatmentType dto,
      status = SCHEDULED,
      doctorNotes = None,
      patientComments = None,
      cancellationReason = None,
      messages = Some [],
      createdAt = now\<rparr>"

definition createAppointment ::
  "fault \<Rightarrow> string \<Rightarrow> int \<Rightarrow> NewAppointmentDTO \<Rightarrow> world \<Rightarrow> (firestore_error + unit) \<times> world" where
  "createAppointment fault newId now dto w =
     (case addDoc fault newId (store w) (newAppointment now dto) of
        Inr c \<Rightarrow> (Inr (), w\<lparr>store := c\<rparr>)
      | Inl e \<Rightarrow>
          (let w1 = console_error ''Error creating appointment:'' e w;
               w2 = (if e = PermissionDenied then alert NoPermissionToCreate w1 else w1)
           in (Inl e, w2)))"

definition updateAppointment ::
  "fault \<Rightarrow> string \<Rightarrow> field_update list \<Rightarrow> world \<Rightarrow> (firestore_error + unit) \<times> world" where
  "updateAppointment fault i updates w =
     (case updateDoc db fault (store w) i updates of
        Inr c \<Rightarrow> (Inr (), w\<lparr>store := c\<rparr>)
      | Inl e \<Rightarrow> (Inr (), console_error ''Error updating appointment:'' e w))"

definition newMessage :: "int \<Rightarrow> ChatMessageNoId \<Rightarrow> ChatMessage" where
  \<comment> \<open>\<^verbatim>\<open>{ ...message, id: Date.now().toString() }\<close>\<close>
  "newMessage now message = ChatMessageNoId.extend message (ChatMessage.fields (toString now))"

definition addMessage ::
  "fault \<Rightarrow> int \<Rightarrow> string \<Rightarrow> ChatMessageNoId \<Rightarrow> world \<Rightarrow> (firestore_error + unit) \<times> world" where
  "addMessage fault now appointmentId message w =
     (case updateDoc db fault (store w) appointmentId
             [Set_messages (Defined (arrayUnion [newMessage now message]))] of
        Inr c \<Rightarrow> (Inr (), w\<lparr>store := c\<rparr>)
      | Inl e \<Rightarrow> (Inr (), console_error ''Error sending message:'' e w))"

definition deleteAppointment ::
  "fault \<Rightarrow> string \<Rightarrow> world \<Rightarrow> (firestore_error + unit) \<times> world" where
  "deleteAppointment fault i w =
     (case deleteDoc fault (store w) i of
        Inr c \<Rightarrow> (Inr (), w\<lparr>store := c\<rparr>)
      | Inl e \<Rightarrow> (Inr (), console_error ''Error deleting appointment:'' e w))"

text \<open>
  \<open>subscribeToAppointments\<close> registers two listeners with \<open>onSnapshot\<close>. The first
  receives the documents of the collection in the order the store delivers them, builds
  the appointments, sorts them in place and hands them to \<open>callback\<close>; the second logs
  the error and hands it to \<open>onError\<close>, when the caller gave one.

  \<open>localeCompare\<close> is the collation of the host that runs the program, which the
  program takes as it finds it: it is an argument of the model, negative, zero or
  positive as its first string sorts before, with or after the second.
  \<open>Array.prototype.sort\<close> is a stable sort: an insertion sort that puts an element
  before the first one that is not smaller.
\<close>

type_synonym collation = "string \<Rightarrow> string \<Rightarrow> int"

definition or_empty :: "string \<Rightarrow> string" where
  \<comment> \<open>\<^verbatim>\<open>s || ''\<close>\<close>
  "or_empty s = (if s = [] then [] else s)"

definition compareAppointments :: "collation \<Rightarrow> Appointment \<Rightarrow> Appointment \<Rightarrow> int" where
  "compareAppointments localeCompare a b =
     (let dateA = or_empty (AppointmentData.date a);
          dateB = or_empty (AppointmentData.date b);
          dateCompare = localeCompare dateA dateB
      in if dateCompare \<noteq> 0 then dateCompare
         else (let timeA = or_empty (AppointmentData.time a);
                   timeB = or_empty (AppointmentData.time b)
               in localeCompare timeA timeB))"

fun insert_sorted :: "('a \<Rightarrow> 'a \<Rightarrow> int) \<Rightarrow> 'a \<Rightarrow> 'a list \<Rightarrow> 'a list" where
  "insert_sorted cmp x [] = [x]"
| "insert_sorted cmp x (y # ys) =
     (if cmp x y \<le> 0 then x # y # ys else y # insert_sorted cmp x ys)"

fun array_sort :: "('a \<Rightarrow> 'a \<Rightarrow> int) \<Rightarrow> 'a list \<Rightarrow> 'a list" where
  "array_sort cmp [] = []"
| "array_sort cmp (x # xs) = insert_sorted cmp x (array_sort cmp xs)"

datatype snapshot_event = Next "(string \<times> AppointmentData) list" | Failed firestore_error

datatype listener_call = Callback "Appointment list" | OnError firestore_error | NoCall

definition snapshot_appointments :: "(string \<times> AppointmentData) list \<Rightarrow> Appointment list" where
  \<comment> \<open>\<^verbatim>\<open>snapshot.docs.map(doc => ({ id: doc.id, ...doc.data() }))\<close>\<close>
  "snapshot_appointments docs = map (\<lambda>(i, d). with_id i d) docs"

definition subscribeToAppointments ::
  "collation \<Rightarrow> bool \<Rightarrow> snapshot_event \<Rightarrow> world \<Rightarrow> listener_call \<times> world" where
  "subscribeToAppointments localeCompare hasOnError ev w =
     (case ev of
        Next docs \<Rightarrow>
          (Callback (array_sort (compareAppointments localeCompare) (snapshot_appointments docs)),
           w)
      | Failed e \<Rightarrow>
          (if hasOnError then OnError e else NoCall,
           console_error ''Error fetching appointments:'' e w))"

section \<open>String.prototype.trim\<close>

text \<open>The white space and line terminator code units below 256.\<close>

definition is_whitespace :: "char \<Rightarrow> bool" where
  "is_whitespace c = (of_char c \<in> {9, 10, 11, 12, 13, 32, 160 :: nat})"

definition trim :: "string \<Rightarrow> string" where
  "trim s = rev (dropWhile is_whitespace (rev (dropWhile is_whitespace s)))"

section \<open>PatientView (components/PatientView.tsx)\<close>

record PatientView =
  appointment :: "Appointment option"
  loading :: bool
  cancelReason :: string
  showCancelModal :: bool
  messageText :: string

definition patient_snapshot :: "string \<Rightarrow> AppointmentData option \<Rightarrow> PatientView \<Rightarrow> PatientView" where
  \<comment> \<open>the listener of \<open>onSnapshot(docRef, ...)\<close>\<close>
  "patient_snapshot appointmentId docSnap v =
     (case docSnap of
        Some d \<Rightarrow> v\<lparr>appointment := Some (with_id appointmentId d), loading := False\<rparr>
      | None \<Rightarrow> v\<lparr>appointment := None, loading := False\<rparr>)"

text \<open>
  \<open>ts\<close> is what \<open>Date.now()\<close> returns in the handler, \<open>now\<close> what it returns inside
  \<open>addMessage\<close>. A handler that awaits a rejected promise stops there.
\<close>

definition handleSendMessage ::
  "fault \<Rightarrow> int \<Rightarrow> int \<Rightarrow> PatientView \<Rightarrow> world \<Rightarrow> PatientView \<times> world" where
  "handleSendMessage fault ts now v w =
     (case appointment v of
        None \<Rightarrow> (v, w)
      | Some a \<Rightarrow>
          if trim (messageText v) \<noteq> [] then
            (case addMessage fault now (appt_id a)
                    \<lparr>sender = Patient, msg_text = messageText v, timestamp = ts\<rparr> w of
               (Inr _, w') \<Rightarrow> (v\<lparr>messageText := []\<rparr>, w')
             | (Inl _, w') \<Rightarrow> (v, w'))
          else (v, w))"

definition handleCancel :: "fault \<Rightarrow> PatientView \<Rightarrow> world \<Rightarrow> PatientView \<times> world" where
  "handleCancel fault v w =
     (case appointment v of
        None \<Rightarrow> (v, w)
      | Some a \<Rightarrow>
          if trim (cancelReason v) \<noteq> [] then
            (case updateAppointment fault (appt_id a)
                    [Set_status (Defined CANCELLED),
                     Set_cancellationReason (Defined (cancelReason v))] w of
               (Inr _, w') \<Rightarrow> (v\<lparr>showCancelModal := False\<rparr>, w')
             | (Inl _, w') \<Rightarrow> (v, w'))
          else (v, w))"

text \<open>\<open>confirmed\<close> is the answer to the \<open>confirm\<close> dialog.\<close>

definition handleResume :: "bool \<Rightarrow> fault \<Rightarrow> PatientView \<Rightarrow> world \<Rightarrow> PatientView \<times> world" where
  "handleResume confirmed fault v w =
     (case appointment v of
        None \<Rightarrow> (v, w)
      | Some a \<Rightarrow>
          if confirmed then
            (case updateAppointment fault (appt_id a)
                    [Set_status (Defined SCHEDULED), Set_cancellationReason Undefined] w of
               (_, w') \<Rightarrow> (v, w'))
          else (v, w))"

text \<open>What the view renders for an appointment \<open>a\<close> that it holds.\<close>

definition isCancelled :: "Appointment \<Rightarrow> bool" where
  "isCancelled a = (status a = CANCELLED)"

definition message_input_disabled :: "Appointment \<Rightarrow> bool" where
  "message_input_disabled a = isCancelled a"

definition send_button_disabled :: "PatientView \<Rightarrow> Appointment \<Rightarrow> bool" where
  "send_button_disabled v a = (trim (messageText v) = [] \<or> isCancelled a)"

definition confirm_cancel_disabled :: "PatientView \<Rightarrow> bool" where
  "confirm_cancel_disabled v = (trim (cancelReason v) = [])"

text \<open>
  The chat form is submitted through its send button (a press of Enter in the input
  goes through the button as well): the view has left the loading state, holds an
  appointment, and the button is enabled.
\<close>

definition patient_can_send :: "PatientView \<Rightarrow> bool" where
  "patient_can_send v =
     (\<not> PatientView.loading v \<and>
      (case appointment v of None \<Rightarrow> False | Some a \<Rightarrow> \<not> send_button_disabled v a))"

section \<open>AdminDashboard (components/AdminDashboard.tsx)\<close>

text \<open>
  The members of the component's state that its chat and its appointment form read or
  write. Which cards the list shows (search, agenda or history) is left out: a card
  shows an appointment of the last snapshot, and the buttons of a card depend on that
  appointment alone.
\<close>

record FormData =
  patientName :: string
  patientEmail :: string
  patientPhone :: string
  date :: string
  time :: string
  treatmentType :: string
  customTreatment :: string

definition initial_form :: FormData where
  "initial_form =
     \<lparr>FormData.patientName = [], patientEmail = [], patientPhone = [], date = [], time = [],
      treatmentType = ''Limpieza General'', customTreatment = []\<rparr>"

record AdminDashboard =
  appointments :: "Appointment list"
  loading :: bool
  error :: "string option"
  isModalOpen :: bool
  editingId :: "string option"
  isChatOpen :: "string option"
  chatMessage :: string
  formData :: FormData

definition truthy :: "string option \<Rightarrow> bool" where
  \<comment> \<open>a \<open>string | null\<close> used as a condition\<close>
  "truthy s = (case s of None \<Rightarrow> False | Some i \<Rightarrow> i \<noteq> [])"

definition admin_subscription ::
  "collation \<Rightarrow> snapshot_event \<Rightarrow> AdminDashboard \<Rightarrow> world \<Rightarrow> AdminDashboard \<times> world" where
  \<comment> \<open>the two callbacks that the component passes to \<open>subscribeToAppointments\<close>\<close>
  "admin_subscription localeCompare ev v w =
     (case subscribeToAppointments localeCompare True ev w of
        (Callback data, w') \<Rightarrow>
          (v\<lparr>appointments := data, AdminDashboard.loading := False, error := None\<rparr>, w')
      | (OnError err, w') \<Rightarrow>
          (v\<lparr>AdminDashboard.loading := False, error := Some ''Error al cargar las citas.''\<rparr>,
           console_error [] err w')
      | (NoCall, w') \<Rightarrow> (v, w'))"

definition handleSubmit ::
  "fault \<Rightarrow> string \<Rightarrow> int \<Rightarrow> AdminDashboard \<Rightarrow> world \<Rightarrow> AdminDashboard \<times> world" where
  "handleSubmit fault newId now v w =
     (let fd = formData v;
          finalTreatment =
            (if FormData.treatmentType fd = ''manual'' then customTreatment fd
             else FormData.treatmentType fd)
      in if trim finalTreatment = [] then (v, alert SpecifyTreatment w)
         else
           (case (if truthy (editingId v) then
                    updateAppointment fault (the (editingId v))
                      [Set_patientName (Defined (FormData.patientName fd)),
                       Set_patientEmail (Defined (FormData.patientEmail fd)),
                       Set_patientPhone (Defined (FormData.patientPhone fd)),
                       Set_date (Defined (FormData.date fd)),
                       Set_time (Defined (FormData.time fd)),
                       Set_treatmentType (Defined finalTreatment)] w
                  else
                    createAppointment fault newId now
                      \<lparr>NewAppointmentDTO.patientName = FormData.patientName fd,
                       patientEmail = FormData.patientEmail fd,
                       patientPhone = FormData.patientPhone fd,
                       date = FormData.date fd,
                       time = FormData.time fd,
                       treatmentType = finalTreatment\<rparr> w) of
              (Inr _, w') \<Rightarrow>
                (v\<lparr>isModalOpen := False, editingId := None, formData := initial_form\<rparr>, w')
            | (Inl _, w') \<Rightarrow> (v, alert SaveFailed w')))"

definition handleDelete :: "bool \<Rightarrow> fault \<Rightarrow> string \<Rightarrow> world \<Rightarrow> world" where
  "handleDelete confirmed fault i w =
     (if confirmed then snd (deleteAppointment fault i w) else w)"

definition handleSendChat ::
  "fault \<Rightarrow> int \<Rightarrow> int \<Rightarrow> string \<Rightarrow> AdminDashboard \<Rightarrow> world \<Rightarrow> AdminDashboard \<times> world" where
  "handleSendChat fault ts now appointmentId v w =
     (if trim (chatMessage v) = [] then (v, w)
      else
        (case addMessage fault now appointmentId
                \<lparr>sender = Doctor, msg_text = chatMessage v, timestamp = ts\<rparr> w of
           (Inr _, w') \<Rightarrow> (v\<lparr>chatMessage := []\<rparr>, w')
         | (Inl _, w') \<Rightarrow> (v, w')))"

definition chat_onSubmit ::
  "fault \<Rightarrow> int \<Rightarrow> int \<Rightarrow> AdminDashboard \<Rightarrow> world \<Rightarrow> AdminDashboard \<times> world" where
  \<comment> \<open>\<^verbatim>\<open>if (isChatOpen) handleSendChat(isChatOpen)\<close>\<close>
  "chat_onSubmit fault ts now v w =
     (if truthy (isChatOpen v) then handleSendChat fault ts now (the (isChatOpen v)) v w
      else (v, w))"

text \<open>
  The card of an appointment shows the Chat button unless the appointment is cancelled;
  a click sets \<open>isChatOpen\<close> to the appointment's id. The chat modal is rendered while
  \<open>isChatOpen\<close> is set; its send button is disabled on a blank message only.
\<close>

definition chat_button_rendered :: "Appointment \<Rightarrow> bool" where
  "chat_button_rendered appt = (status appt \<noteq> CANCELLED)"

definition click_chat :: "Appointment \<Rightarrow> AdminDashboard \<Rightarrow> AdminDashboard" where
  "click_chat appt v =
     (if chat_button_rendered appt then v\<lparr>isChatOpen := Some (appt_id appt)\<rparr> else v)"

definition chat_modal_rendered :: "AdminDashboard \<Rightarrow> bool" where
  "chat_modal_rendered v = truthy (isChatOpen v)"

definition chat_send_disabled :: "AdminDashboard \<Rightarrow> bool" where
  "chat_send_disabled v = (trim (chatMessage v) = [])"

definition admin_can_send :: "AdminDashboard \<Rightarrow> bool" where
  "admin_can_send v = (chat_modal_rendered v \<and> \<not> chat_send_disabled v)"

definition chat_appointment :: "AdminDashboard \<Rightarrow> Appointment option" where
  \<comment> \<open>\<^verbatim>\<open>appointments.find(a => a.id === isChatOpen)\<close>\<close>
  "chat_appointment v = find (\<lambda>a. Some (appt_id a) = isChatOpen v) (appointments v)"

section \<open>The system's operations on the store\<close>

text \<open>
  Every handler of the two views that calls the storage layer, each with the state of
  its view (any state at all) and the choices of the environment.
\<close>

datatype action =
    AdminSubmit fault string int AdminDashboard
  | AdminDelete bool fault string
  | AdminChatSubmit fault int int AdminDashboard
  | PatientSendMessage fault int int PatientView
  | PatientCancel fault PatientView
  | PatientResume bool fault PatientView

fun perform :: "action \<Rightarrow> world \<Rightarrow> world" where
  "perform (AdminSubmit fault newId now v) w = snd (handleSubmit fault newId now v w)"
| "perform (AdminDelete confirmed fault i) w = handleDelete confirmed fault i w"
| "perform (AdminChatSubmit fault ts now v) w = snd (chat_onSubmit fault ts now v w)"
| "perform (PatientSendMessage fault ts now v) w = snd (handleSendMessage fault ts now v w)"
| "perform (PatientCancel fault v) w = snd (handleCancel fault v w)"
| "perform (PatientResume confirmed fault v) w = snd (handleResume confirmed fault v w)"

definition run :: "action list \<Rightarrow> world \<Rightarrow> world" where
  "run acts w = foldl (\<lambda>acc a. perform a acc) w acts"

section \<open>Calls in flight\<close>

text \<open>
  Two clients can have calls in flight at the same time. What the store sees of a call
  is its requests, one at a time, each applied to the collection as a whole; between
  two requests of one call, requests of other calls can arrive. A call in flight is a
  \<open>task\<close>: it has resolved, or it writes a line on the console, or it awaits a request
  and goes on with the response.
\<close>

datatype request = GetDoc string | UpdateDoc string "field_update list"

datatype response = DocSnap "AppointmentData option" | Written | Raised firestore_error

datatype task = Resolve | Log string firestore_error task | Await request "response \<Rightarrow> task"

fun exec_request :: "fault \<Rightarrow> request \<Rightarrow> collection \<Rightarrow> response \<times> collection" where
  "exec_request fault (GetDoc i) c =
     (case getDoc fault c i of Inl e \<Rightarrow> (Raised e, c) | Inr d \<Rightarrow> (DocSnap d, c))"
| "exec_request fault (UpdateDoc i updates) c =
     (case updateDoc db fault c i updates of Inl e \<Rightarrow> (Raised e, c) | Inr c' \<Rightarrow> (Written, c'))"

text \<open>
  \<open>addMessage\<close> as a task: the message with its id, one \<open>updateDoc\<close> with the
  \<open>arrayUnion\<close> sentinel, and the \<open>catch\<close>. Run on its own it is the function
  \<open>addMessage\<close> above (lemma \<open>run_addMessage_task\<close>).
\<close>

definition addMessage_task :: "int \<Rightarrow> string \<Rightarrow> ChatMessageNoId \<Rightarrow> task" where
  "addMessage_task now appointmentId message =
     Await (UpdateDoc appointmentId
              [Set_messages (Defined (arrayUnion [newMessage now message]))])
       (\<lambda>r. case r of
               Raised e \<Rightarrow> Log ''Error sending message:'' e Resolve
             | _ \<Rightarrow> Resolve)"

primrec run_task :: "task \<Rightarrow> fault \<Rightarrow> world \<Rightarrow> world" where
  "run_task Resolve fault w = w"
| "run_task (Log label e t) fault w = run_task t fault (console_error label e w)"
| "run_task (Await r k) fault w =
     (case exec_request fault r (store w) of
        (resp, c) \<Rightarrow> run_task (k resp) fault (w\<lparr>store := c\<rparr>))"

text \<open>
  One step of a call in flight, with the store accepting the request; and the calls
  \<open>ts\<close> advancing in the order of a schedule, which names the call that moves next.
\<close>

fun advance :: "task \<Rightarrow> world \<Rightarrow> task \<times> world" where
  "advance Resolve w = (Resolve, w)"
| "advance (Log label e t) w = (t, console_error label e w)"
| "advance (Await r k) w =
     (case exec_request None r (store w) of (resp, c) \<Rightarrow> (k resp, w\<lparr>store := c\<rparr>))"

fun interleave :: "nat list \<Rightarrow> task list \<Rightarrow> world \<Rightarrow> task list \<times> world" where
  "interleave [] ts w = (ts, w)"
| "interleave (k # schedule) ts w =
     (if k < length ts then
        (case advance (ts ! k) w of (t, w') \<Rightarrow> interleave schedule (ts[k := t]) w')
      else interleave schedule ts w)"

definition all_resolved :: "task list \<Rightarrow> bool" where
  "all_resolved ts = list_all (\<lambda>t. case t of Resolve \<Rightarrow> True | _ \<Rightarrow> False) ts"


text \<open>
  For comparison, the append that the program does not do: read the document, then
  write the list with the message added.
\<close>

definition read_then_write_task :: "int \<Rightarrow> string \<Rightarrow> ChatMessageNoId \<Rightarrow> task" where
  "read_then_write_task now appointmentId message =
     Await (GetDoc appointmentId)
       (\<lambda>r. case r of
               DocSnap (Some d) \<Rightarrow>
                 Await (UpdateDoc appointmentId
                          [Set_messages (Defined (Messages
                             (messages_or_empty d @ [newMessage now message])))])
                   (\<lambda>r'. case r' of
                            Raised e \<Rightarrow> Log ''Error sending message:'' e Resolve
                          | _ \<Rightarrow> Resolve)
             | Raised e \<Rightarrow> Log ''Error sending message:'' e Resolve
             | _ \<Rightarrow> Resolve)"

section \<open>Reading a decimal string\<close>



section \<open>A collation for the examples\<close>

text \<open>
  The collations of the browsers rank punctuation below the digits. \<open>separators_first\<close>
  does so for the separators of dates and times, and compares the other characters by
  their codes.
\<close>

definition collation_weight :: "char \<Rightarrow> nat" where
  "collation_weight c =
     (if c = CHR ''-'' then 1 else if c = CHR '':'' then 2 else 3 + of_char c)"

definition separators_first :: collation where
  "separators_first a b =
     (let x = map collation_weight a; y = map collation_weight b
      in if x < y then - 1 else if y < x then 1 else 0)"

section \<open>Sample data\<close>

definition empty_world :: world where
  "empty_world = \<lparr>store = Map.empty, console = [], alerts = []\<rparr>"

definition dto_juan :: NewAppointmentDTO where
  "dto_juan =
     \<lparr>NewAppointmentDTO.patientName = ''Juan Perez'', patientEmail = ''juan@example.com'',
      patientPhone = ''5215550001'', date = ''2024-05-01'', time = ''10:00'',
      treatmentType = ''Limpieza General''\<rparr>"

definition world_juan :: world where
  \<comment> \<open>after \<open>createAppointment\<close> of \<open>dto_juan\<close> at time 1000, stored under \<open>a1\<close>\<close>
  "world_juan = empty_world\<lparr>store := [''a1'' \<mapsto> newAppointment 1000 dto_juan]\<rparr>"

definition patient_juan :: PatientView where
  "patient_juan =
     \<lparr>appointment = Some (with_id ''a1'' (newAppointment 1000 dto_juan)),
      loading = False, cancelReason = [], showCancelModal = False, messageText = []\<rparr>"

definition admin_initial :: AdminDashboard where
  "admin_initial =
     \<lparr>appointments = [], loading = True, error = None, isModalOpen = False,
      editingId = None, isChatOpen = None, chatMessage = [], formData = initial_form\<rparr>"

definition world_cancelled :: world where
  \<comment> \<open>\<open>world_juan\<close> after the patient cancelled with the reason given\<close>
  "world_cancelled =
     world_juan\<lparr>store := [''a1'' \<mapsto> (newAppointment 1000 dto_juan)
       \<lparr>status := CANCELLED, cancellationReason := Some ''Me enferme''\<rparr>]\<rparr>"

definition patient_cancelled :: PatientView where
  "patient_cancelled =
     patient_juan\<lparr>appointment := Some (with_id ''a1'' ((newAppointment 1000 dto_juan)
       \<lparr>status := CANCELLED, cancellationReason := Some ''Me enferme''\<rparr>))\<rparr>"

definition admin_juan :: AdminDashboard where
  \<comment> \<open>the dashboard with the form filled in for a new appointment\<close>
  "admin_juan =
     admin_initial\<lparr>AdminDashboard.loading := False, isModalOpen := True,
       formData := \<lparr>FormData.patientName = ''Juan Perez'', patientEmail = ''juan@example.com'',
         patientPhone = ''5215550001'', date = ''2024-05-01'', time = ''10:00'',
         treatmentType = ''Limpieza General'', customTreatment = []\<rparr>\<rparr>"

definition lifecycle_juan :: "action list" where
  \<comment> \<open>the appointment is created, cancelled by the patient, and resumed\<close>
  "lifecycle_juan =
     [AdminSubmit None ''a1'' 1000 admin_juan,
      PatientCancel None (patient_juan\<lparr>cancelReason := ''Me enferme'', showCancelModal := True\<rparr>),
      PatientResume True None patient_cancelled]"

definition admin_chatting :: AdminDashboard where
  \<comment> \<open>the dashboard receives \<open>a1\<close> as scheduled, the doctor opens its chat, the dashboard
      receives \<open>a1\<close> as cancelled, and the doctor types a message\<close>
  "admin_chatting =
     (fst (admin_subscription separators_first
        (Next [(''a1'', (newAppointment 1000 dto_juan)
                  \<lparr>status := CANCELLED, cancellationReason := Some ''Me enferme''\<rparr>)])
        (click_chat (with_id ''a1'' (newAppointment 1000 dto_juan))
           (fst (admin_subscription separators_first
                   (Next [(''a1'', newAppointment 1000 dto_juan)])
              admin_initial world_juan)))
        world_cancelled))\<lparr>chatMessage := ''hola''\<rparr>"

definition doc_at :: "string \<Rightarrow> string \<Rightarrow> AppointmentData" where
  "doc_at d t =
     (newAppointment 1000 dto_juan)\<lparr>AppointmentData.date := d, AppointmentData.time := t\<rparr>"

definition snapshot_four :: "(string \<times> AppointmentData) list" where
  "snapshot_four =
     [(''a1'', doc_at ''2024-05-02'' ''09:00''), (''a2'', doc_at ''2024-05-01'' ''10:00''),
      (''a3'', doc_at ''2024-04-30'' ''18:30''), (''a4'', doc_at ''2024-05-01'' ''10:00'')]"


definition snapshot_unpadded :: "(string \<times> AppointmentData) list" where
  \<comment> \<open>two appointments of one day, at ten and at one, the hour of the second not padded\<close>
  "snapshot_unpadded =
     [(''a1'', doc_at ''2024-05-01'' ''10:00''), (''a2'', doc_at ''2024-05-01'' ''1:00'')]"


section \<open>Notions the properties are stated with\<close>

text \<open>
  The pair by which the appointments are ordered: pairs and strings are compared
  lexicographically, characters by their codes.
\<close>

definition date_time :: "Appointment \<Rightarrow> string \<times> string" where
  "date_time a = (AppointmentData.date a, AppointmentData.time a)"

text \<open>
  A collation agrees with the order of the code units on a set of strings: it tells
  every two of them apart as that order does.
\<close>

definition agrees_on :: "collation \<Rightarrow> string set \<Rightarrow> bool" where
  "agrees_on localeCompare S =
     (\<forall>s\<in>S. \<forall>t\<in>S. (localeCompare s t < 0 \<longleftrightarrow> s < t) \<and> (localeCompare s t = 0 \<longleftrightarrow> s = t))"

text \<open>
  Two strings have the same layout: they are as long as each other and have their
  separators at the same places, as two dates written \<open>YYYY-MM-DD\<close> or two times
  written \<open>HH:MM\<close> have.
\<close>

definition same_layout :: "string \<Rightarrow> string \<Rightarrow> bool" where
  "same_layout s t =
     list_all2 (\<lambda>c d. c = d \<or> (c \<notin> {CHR ''-'', CHR '':''} \<and> d \<notin> {CHR ''-'', CHR '':''})) s t"


text \<open>No document of the collection has the status COMPLETED.\<close>

definition never_completed :: "collection \<Rightarrow> bool" where
  "never_completed c = (\<forall>i d. c i = Some d \<longrightarrow> status d \<noteq> COMPLETED)"

section \<open>Basic facts\<close>

lemma messages_update_same: "messages d = Some ms \<Longrightarrow> d\<lparr>messages := Some ms\<rparr> = d"
  by (cases d) simp

lemma store_update_same: "store w i = Some d \<Longrightarrow> w\<lparr>store := (store w)(i \<mapsto> d)\<rparr> = w"
  by (cases w) (simp add: map_upd_triv)

lemma addMessage_ok:
  "store w i = Some d \<Longrightarrow>
   addMessage None now i m w =
     (Inr (), w\<lparr>store := (store w)(i \<mapsto>
        d\<lparr>messages := Some (array_union (messages_or_empty d) [newMessage now m])\<rparr>)\<rparr>)"
  by (simp add: addMessage_def updateDoc_def db_def merge_fields_def)

lemma updateAppointment_ok:
  "store w i = Some d \<Longrightarrow> \<not> list_ex is_undefined updates \<Longrightarrow>
   updateAppointment None i updates w =
     (Inr (), w\<lparr>store := (store w)(i \<mapsto> merge_fields updates d)\<rparr>)"
  by (simp add: updateAppointment_def updateDoc_def)

lemma updateAppointment_store:
  "store (snd (updateAppointment fault i updates w)) = store w \<or>
   (\<exists>d. store w i = Some d \<and> \<not> list_ex is_undefined updates \<and>
        store (snd (updateAppointment fault i updates w)) =
          (store w)(i \<mapsto> merge_fields updates d))"
  by (auto simp: updateAppointment_def updateDoc_def db_def console_error_def
      split: option.splits)

lemma dropWhile_all_iff: "(\<forall>c\<in>set (dropWhile P s). P c) \<longleftrightarrow> (\<forall>c\<in>set s. P c)"
  by (induction s) auto

lemma trim_blank_iff: "trim s = [] \<longleftrightarrow> (\<forall>c\<in>set s. is_whitespace c)"
  by (simp add: trim_def dropWhile_all_iff)

section \<open>Creating and fetching\<close>

text \<open>
  Claim C1. Creating an appointment from the six fields of the form and then fetching it
  by the id under which the store put it yields exactly those fields, the status
  SCHEDULED, that id, an empty message list, no other member, and the clock's reading
  taken during the call as \<open>createdAt\<close>, which is not before the call. The store accepts
  the write and the read, and the id is new.
\<close>

theorem create_then_get_by_id:
  assumes "store w newId = None" and "call_time \<le> now"
  shows "\<exists>w' a. createAppointment None newId now dto w = (Inr (), w') \<and>
           getAppointmentById None newId w' = (Inr (Some a), w') \<and>
           a = \<lparr>AppointmentData.patientName = NewAppointmentDTO.patientName dto,
                patientEmail = Some (NewAppointmentDTO.patientEmail dto),
                patientPhone = Some (NewAppointmentDTO.patientPhone dto),
                date = NewAppointmentDTO.date dto,
                time = NewAppointmentDTO.time dto,
                treatmentType = NewAppointmentDTO.treatmentType dto,
                status = SCHEDULED,
                doctorNotes = None,
                patientComments = None,
                cancellationReason = None,
                messages = Some [],
                createdAt = now,
                appt_id = newId\<rparr> \<and>
           call_time \<le> createdAt a"
  using assms
  by (simp add: createAppointment_def addDoc_def getAppointmentById_def getDoc_def
      newAppointment_def with_id_def AppointmentData.defs Appointment.defs)

theorem create_then_get_by_id_witness:
  "store empty_world ''a1'' = None \<and> (999 :: int) \<le> 1000 \<and>
   createAppointment None ''a1'' 1000 dto_juan empty_world = (Inr (), world_juan) \<and>
   getAppointmentById None ''a1'' world_juan =
     (Inr (Some \<lparr>AppointmentData.patientName = ''Juan Perez'',
                  patientEmail = Some ''juan@example.com'',
                  patientPhone = Some ''5215550001'',
                  date = ''2024-05-01'',
                  time = ''10:00'',
                  treatmentType = ''Limpieza General'',
                  status = SCHEDULED,
                  doctorNotes = None,
                  patientComments = None,
                  cancellationReason = None,
                  messages = Some [],
                  createdAt = 1000,
                  appt_id = ''a1''\<rparr>), world_juan)"
proof -
  have fresh: "store empty_world ''a1'' = None" by (simp add: empty_world_def)
  have c: "createAppointment None ''a1'' 1000 dto_juan empty_world = (Inr (), world_juan)"
    by (simp add: createAppointment_def addDoc_def empty_world_def world_juan_def)
  from create_then_get_by_id [OF fresh, of 999 1000 dto_juan] fresh show ?thesis
    unfolding c by (auto simp: dto_juan_def)
qed

section \<open>Fetching a record that is absent, or failing to fetch\<close>

text \<open>
  Claim C6. \<open>getAppointmentById\<close> resolves with the absent value when no document has the
  id, and with the same absent value, after one line on the console, when the fetch
  fails, whatever the error and whether or not the document exists. Its promise is never
  rejected and the collection is left as it was, so the caller sees the same outcome in
  both cases.
\<close>

theorem getAppointmentById_absent:
  "(store w i = None \<longrightarrow> getAppointmentById None i w = (Inr None, w)) \<and>
   getAppointmentById (Some e) i w =
     (Inr None, console_error ''Error getting document:'' e w) \<and>
   (\<forall>e'. fst (getAppointmentById fault i w) \<noteq> Inl e') \<and>
   store (snd (getAppointmentById fault i w)) = store w"
  by (auto simp: getAppointmentById_def getDoc_def console_error_def
      split: option.splits sum.splits)

theorem getAppointmentById_absent_witness:
  "store world_juan ''zz'' = None \<and>
   getAppointmentById None ''zz'' world_juan = (Inr None, world_juan) \<and>
   getAppointmentById (Some Unavailable) ''a1'' world_juan =
     (Inr None, world_juan\<lparr>console := [(''Error getting document:'', Unavailable)]\<rparr>) \<and>
   fst (getAppointmentById (Some PermissionDenied) ''a1'' world_juan) =
     fst (getAppointmentById None ''zz'' world_juan)"
  using getAppointmentById_absent [of world_juan "''zz''" Unavailable None]
    getAppointmentById_absent [of world_juan "''a1''" Unavailable None]
    getAppointmentById_absent [of world_juan "''a1''" PermissionDenied None]
  by (simp add: world_juan_def empty_world_def console_error_def)

section \<open>Failures of the store\<close>

text \<open>
  Claim C7. When the store's primitive raises an error \<open>e\<close>, \<open>updateAppointment\<close>,
  \<open>addMessage\<close> and \<open>deleteAppointment\<close> write one line on the console and resolve as they
  do on success: their outcome is \<open>Inr ()\<close> in every case, so the caller cannot see that
  the write failed. \<open>createAppointment\<close> writes its line, shows the permission dialog
  when the error is permission-denied, and rejects with \<open>e\<close>.
\<close>

theorem write_failures:
  "(updateDoc db fault (store w) i updates = Inl e \<longrightarrow>
      updateAppointment fault i updates w =
        (Inr (), w\<lparr>console := console w @ [(''Error updating appointment:'', e)]\<rparr>)) \<and>
   (updateDoc db fault (store w) i
        [Set_messages (Defined (arrayUnion [newMessage now m]))] = Inl e \<longrightarrow>
      addMessage fault now i m w =
        (Inr (), w\<lparr>console := console w @ [(''Error sending message:'', e)]\<rparr>)) \<and>
   (deleteDoc fault (store w) i = Inl e \<longrightarrow>
      deleteAppointment fault i w =
        (Inr (), w\<lparr>console := console w @ [(''Error deleting appointment:'', e)]\<rparr>)) \<and>
   (addDoc fault newId (store w) (newAppointment now dto) = Inl e \<longrightarrow>
      createAppointment fault newId now dto w =
        (Inl e,
         w\<lparr>console := console w @ [(''Error creating appointment:'', e)],
           alerts := alerts w @ (if e = PermissionDenied then [NoPermissionToCreate] else [])\<rparr>)) \<and>
   fst (updateAppointment fault i updates w) = Inr () \<and>
   fst (addMessage fault now i m w) = Inr () \<and>
   fst (deleteAppointment fault i w) = Inr ()"
  by (simp add: updateAppointment_def addMessage_def deleteAppointment_def
      createAppointment_def console_error_def alert_def Let_def split: sum.splits)

theorem write_failures_witness:
  "updateDoc db (Some PermissionDenied) (store world_juan) ''a1''
       [Set_date (Defined ''2024-05-02'')] = Inl PermissionDenied \<and>
   updateAppointment (Some PermissionDenied) ''a1'' [Set_date (Defined ''2024-05-02'')] world_juan =
     (Inr (),
      \<lparr>store = [''a1'' \<mapsto> newAppointment 1000 dto_juan],
       console = [(''Error updating appointment:'', PermissionDenied)],
       alerts = []\<rparr>) \<and>
   addMessage (Some PermissionDenied) 2000 ''a1''
       \<lparr>sender = Doctor, msg_text = ''hola'', timestamp = 2000\<rparr> world_juan =
     (Inr (),
      \<lparr>store = [''a1'' \<mapsto> newAppointment 1000 dto_juan],
       console = [(''Error sending message:'', PermissionDenied)],
       alerts = []\<rparr>) \<and>
   deleteAppointment (Some PermissionDenied) ''a1'' world_juan =
     (Inr (),
      \<lparr>store = [''a1'' \<mapsto> newAppointment 1000 dto_juan],
       console = [(''Error deleting appointment:'', PermissionDenied)],
       alerts = []\<rparr>) \<and>
   createAppointment (Some PermissionDenied) ''a2'' 2000 dto_juan world_juan =
     (Inl PermissionDenied,
      \<lparr>store = [''a1'' \<mapsto> newAppointment 1000 dto_juan],
       console = [(''Error creating appointment:'', PermissionDenied)],
       alerts = [NoPermissionToCreate]\<rparr>) \<and>
   createAppointment (Some Unavailable) ''a2'' 2000 dto_juan world_juan =
     (Inl Unavailable,
      \<lparr>store = [''a1'' \<mapsto> newAppointment 1000 dto_juan],
       console = [(''Error creating appointment:'', Unavailable)],
       alerts = []\<rparr>)"
proof -
  have f: "updateDoc db (Some e) c i [Set_date (Defined s)] = Inl e"
    "updateDoc db (Some e) c i [Set_messages (Defined (arrayUnion ms))] = Inl e"
    "deleteDoc (Some e) c i = Inl e"
    "addDoc (Some e) n c d = Inl e" for e c i s ms n d
    by (simp_all add: updateDoc_def deleteDoc_def addDoc_def db_def)
  from write_failures [of "Some PermissionDenied" world_juan "''a1''"
      "[Set_date (Defined ''2024-05-02'')]" PermissionDenied 2000
      "\<lparr>sender = Doctor, msg_text = ''hola'', timestamp = 2000\<rparr>" "''a2''" dto_juan]
    write_failures [of "Some Unavailable" world_juan "''a1''"
      "[Set_date (Defined ''2024-05-02'')]" Unavailable 2000
      "\<lparr>sender = Doctor, msg_text = ''hola'', timestamp = 2000\<rparr>" "''a2''" dto_juan]
  show ?thesis
    by (simp add: f world_juan_def empty_world_def)
qed

section \<open>The order of the subscription's appointments\<close>

lemma date_time_less:
  "date_time a < date_time b \<longleftrightarrow>
     AppointmentData.date a < AppointmentData.date b \<or>
     (AppointmentData.date a = AppointmentData.date b \<and>
      AppointmentData.time a < AppointmentData.time b)"
  by (auto simp: date_time_def less_prod_def)

lemma agrees_on_le:
  "agrees_on lc S \<Longrightarrow> s \<in> S \<Longrightarrow> t \<in> S \<Longrightarrow> lc s t \<le> 0 \<longleftrightarrow> s \<le> t"
  unfolding agrees_on_def by (metis le_less less_le)

lemma compareAppointments_le:
  assumes "agrees_on lc D" and "agrees_on lc T"
    and "AppointmentData.date a \<in> D" "AppointmentData.date b \<in> D"
    and "AppointmentData.time a \<in> T" "AppointmentData.time b \<in> T"
  shows "compareAppointments lc a b \<le> 0 \<longleftrightarrow> date_time a \<le> date_time b"
proof (cases "AppointmentData.date a = AppointmentData.date b")
  case True
  with assms(1,3) have "lc (AppointmentData.date a) (AppointmentData.date b) = 0"
    by (simp add: agrees_on_def)
  with True agrees_on_le [OF assms(2,5,6)] show ?thesis
    by (simp add: compareAppointments_def or_empty_def Let_def date_time_def less_eq_prod_def)
next
  case False
  with assms(1,3,4) have n: "lc (AppointmentData.date a) (AppointmentData.date b) \<noteq> 0"
    by (simp add: agrees_on_def)
  from agrees_on_le [OF assms(1,3,4)] False n show ?thesis
    by (auto simp: compareAppointments_def or_empty_def Let_def date_time_def less_eq_prod_def)
qed

lemma insert_sorted_insort_key:
  assumes "agrees_on lc D" and "agrees_on lc T"
    and "AppointmentData.date x \<in> D" "AppointmentData.time x \<in> T"
    and "\<forall>y\<in>set ys. AppointmentData.date y \<in> D \<and> AppointmentData.time y \<in> T"
  shows "insert_sorted (compareAppointments lc) x ys = insort_key date_time x ys"
  using assms(5)
  by (induction ys) (simp_all add: compareAppointments_le [OF assms(1,2,3) _ assms(4)])

lemma array_sort_sort_key:
  assumes "agrees_on lc D" and "agrees_on lc T"
    and "\<forall>y\<in>set xs. AppointmentData.date y \<in> D \<and> AppointmentData.time y \<in> T"
  shows "array_sort (compareAppointments lc) xs = sort_key date_time xs"
  using assms(3)
proof (induction xs)
  case Nil
  show ?case by simp
next
  case (Cons x xs)
  then have "array_sort (compareAppointments lc) xs = sort_key date_time xs" by simp
  moreover have "insert_sorted (compareAppointments lc) x (sort_key date_time xs) =
      insort_key date_time x (sort_key date_time xs)"
    using Cons.prems by (intro insert_sorted_insort_key [OF assms(1,2)]) simp_all
  ultimately show ?case by simp
qed

lemma sorted_positions:
  assumes "sorted (map f r)" "i < length r" "j < length r" "f (r ! i) < f (r ! j)"
  shows "i < j"
proof (rule ccontr)
  assume "\<not> i < j"
  then have "j \<le> i" by simp
  with assms(1,2) have "map f r ! j \<le> map f r ! i"
    by (simp add: sorted_nth_mono del: nth_map)
  with assms(2,3,4) show False by simp
qed

lemma with_id_date_time [simp]:
  "AppointmentData.date (with_id i d) = AppointmentData.date d"
  "AppointmentData.time (with_id i d) = AppointmentData.time d"
  "appt_id (with_id i d) = i"
  by (simp_all add: with_id_def AppointmentData.defs Appointment.defs)

lemma collation_weight_less:
  "c \<notin> {CHR ''-'', CHR '':''} \<Longrightarrow> d \<notin> {CHR ''-'', CHR '':''} \<Longrightarrow>
   (collation_weight c < collation_weight d \<longleftrightarrow> c < d) \<and>
   (collation_weight c = collation_weight d \<longleftrightarrow> c = d)"
  by (simp add: collation_weight_def less_char_def)

lemma weights_same_layout:
  "same_layout s t \<Longrightarrow>
   (map collation_weight s < map collation_weight t \<longleftrightarrow> s < t) \<and>
   (map collation_weight s = map collation_weight t \<longleftrightarrow> s = t)"
  unfolding same_layout_def
proof (induction rule: list_all2_induct)
  case Nil
  show ?case by simp
next
  case (Cons c s d t)
  from Cons(1) have "(collation_weight c < collation_weight d \<longleftrightarrow> c < d) \<and>
      (collation_weight c = collation_weight d \<longleftrightarrow> c = d)"
    using collation_weight_less [of c d] by auto
  with Cons.IH show ?case by auto
qed

lemma separators_first_same_layout:
  assumes "same_layout s t"
  shows "(separators_first s t < 0 \<longleftrightarrow> s < t) \<and> (separators_first s t = 0 \<longleftrightarrow> s = t)"
  using weights_same_layout [OF assms]
  by (auto simp: separators_first_def Let_def)

lemma agrees_on_same_layout:
  "\<forall>s\<in>S. \<forall>t\<in>S. same_layout s t \<Longrightarrow> agrees_on separators_first S"
  by (simp add: agrees_on_def separators_first_same_layout)

text \<open>
  Claim C2, as stated, fails where the host's collation and the order of the code units
  part: with a collation that ranks the colon below the digits, of two appointments of
  one day at \<open>10:00\<close> and at \<open>1:00\<close> the second is handed over first, though \<open>1:00\<close> is
  the later string (the code of the digit \<open>0\<close> is below the colon's).
\<close>

theorem subscribe_order_is_the_collations:
  "subscribeToAppointments separators_first True (Next snapshot_unpadded) empty_world =
     (Callback [with_id ''a2'' (doc_at ''2024-05-01'' ''1:00''),
                with_id ''a1'' (doc_at ''2024-05-01'' ''10:00'')], empty_world) \<and>
   date_time (with_id ''a1'' (doc_at ''2024-05-01'' ''10:00'')) <
     date_time (with_id ''a2'' (doc_at ''2024-05-01'' ''1:00''))"
  by (simp add: subscribeToAppointments_def snapshot_unpadded_def snapshot_appointments_def
      compareAppointments_def separators_first_def collation_weight_def or_empty_def Let_def
      date_time_def less_prod_def doc_at_def)

text \<open>
  Claim C2, amended. Whenever the host's \<open>localeCompare\<close> agrees with the order of the
  code units on the dates and on the times of the documents that the store delivers, the
  listener of \<open>subscribeToAppointments\<close> calls \<open>callback\<close> with the same appointments,
  sorted by date and then by time, both compared as strings: an appointment stands
  before every appointment whose (date, time) pair is later. Appointments with the same
  date and time keep the order in which the store delivered them. (A collation that
  ranks the separators first agrees with that order on strings of one layout, lemma
  \<open>agrees_on_same_layout\<close>.)
\<close>

theorem subscribe_delivers_sorted:
  assumes "agrees_on localeCompare (AppointmentData.date ` snd ` set docs)"
    and "agrees_on localeCompare (AppointmentData.time ` snd ` set docs)"
  shows "\<exists>r. subscribeToAppointments localeCompare h (Next docs) w = (Callback r, w) \<and>
       mset r = mset (snapshot_appointments docs) \<and>
       sorted (map date_time r) \<and>
       (\<forall>i j. i < length r \<and> j < length r \<and> date_time (r ! i) < date_time (r ! j) \<longrightarrow>
          i < j) \<and>
       (\<forall>k. filter (\<lambda>a. date_time a = k) r =
            filter (\<lambda>a. date_time a = k) (snapshot_appointments docs))"
proof -
  let ?r = "sort_key date_time (snapshot_appointments docs)"
  have "\<forall>y\<in>set (snapshot_appointments docs).
      AppointmentData.date y \<in> AppointmentData.date ` snd ` set docs \<and>
      AppointmentData.time y \<in> AppointmentData.time ` snd ` set docs"
    by (force simp: snapshot_appointments_def)
  then have "array_sort (compareAppointments localeCompare) (snapshot_appointments docs) = ?r"
    by (rule array_sort_sort_key [OF assms])
  then have 1: "subscribeToAppointments localeCompare h (Next docs) w = (Callback ?r, w)"
    by (simp add: subscribeToAppointments_def)
  have 2: "mset ?r = mset (snapshot_appointments docs)" by simp
  have 3: "sorted (map date_time ?r)" by (rule sorted_sort_key)
  have 4: "\<forall>i j. i < length ?r \<and> j < length ?r \<and> date_time (?r ! i) < date_time (?r ! j) \<longrightarrow>
      i < j"
    using sorted_positions [OF 3] by blast
  have 5: "\<forall>k. filter (\<lambda>a. date_time a = k) ?r =
            filter (\<lambda>a. date_time a = k) (snapshot_appointments docs)"
    by (simp add: sort_key_stable)
  from 1 2 3 4 5 show ?thesis by blast
qed

theorem subscribe_delivers_sorted_witness:
  "agrees_on separators_first (AppointmentData.date ` snd ` set snapshot_four) \<and>
   agrees_on separators_first (AppointmentData.time ` snd ` set snapshot_four) \<and>
   (\<exists>r. subscribeToAppointments separators_first True (Next snapshot_four) empty_world =
          (Callback r, empty_world) \<and>
       map appt_id r = [''a3'', ''a2'', ''a4'', ''a1''] \<and>
       map date_time r =
         [(''2024-04-30'', ''18:30''), (''2024-05-01'', ''10:00''),
          (''2024-05-01'', ''10:00''), (''2024-05-02'', ''09:00'')] \<and>
       sorted (map date_time r))"
proof -
  let ?sorted =
    "[with_id ''a3'' (doc_at ''2024-04-30'' ''18:30''),
      with_id ''a2'' (doc_at ''2024-05-01'' ''10:00''),
      with_id ''a4'' (doc_at ''2024-05-01'' ''10:00''),
      with_id ''a1'' (doc_at ''2024-05-02'' ''09:00'')]"
  have d: "agrees_on separators_first (AppointmentData.date ` snd ` set snapshot_four)"
    by (simp add: agrees_on_def snapshot_four_def doc_at_def separators_first_def
        collation_weight_def Let_def)
  have t: "agrees_on separators_first (AppointmentData.time ` snd ` set snapshot_four)"
    by (simp add: agrees_on_def snapshot_four_def doc_at_def separators_first_def
        collation_weight_def Let_def)
  from subscribe_delivers_sorted [OF d t, of True empty_world]
  obtain r where
    r: "subscribeToAppointments separators_first True (Next snapshot_four) empty_world =
          (Callback r, empty_world)"
    and s: "sorted (map date_time r)" by blast
  have e: "subscribeToAppointments separators_first True (Next snapshot_four) empty_world =
          (Callback ?sorted, empty_world)"
    by (simp add: subscribeToAppointments_def snapshot_four_def snapshot_appointments_def
        compareAppointments_def separators_first_def collation_weight_def or_empty_def
        Let_def doc_at_def)
  from r e have "r = ?sorted" by simp
  with r s d t show ?thesis
    by (simp add: date_time_def doc_at_def)
qed

section \<open>Appending messages\<close>








lemma run_addMessage_task:
  "run_task (addMessage_task now i m) fault w = snd (addMessage fault now i m w)"
  by (simp add: addMessage_task_def addMessage_def split: sum.splits)













text \<open>
  Were the append a read followed by a write of the whole list, a message would be lost
  when the two reads come before the two writes.
\<close>

lemma read_then_write_loses_a_message:
  "all_resolved (fst (interleave [0, 1, 0, 1]
      [read_then_write_task 2000 ''a1'' \<lparr>sender = Patient, msg_text = ''hola'', timestamp = 1999\<rparr>,
       read_then_write_task 2000 ''a1'' \<lparr>sender = Doctor, msg_text = ''Si'', timestamp = 2000\<rparr>]
      world_juan)) \<and>
   map_option messages (store (snd (interleave [0, 1, 0, 1]
      [read_then_write_task 2000 ''a1'' \<lparr>sender = Patient, msg_text = ''hola'', timestamp = 1999\<rparr>,
       read_then_write_task 2000 ''a1'' \<lparr>sender = Doctor, msg_text = ''Si'', timestamp = 2000\<rparr>]
      world_juan)) ''a1'') =
     Some (Some [newMessage 2000 \<lparr>sender = Doctor, msg_text = ''Si'', timestamp = 2000\<rparr>])"
  by (simp add: read_then_write_task_def all_resolved_def world_juan_def empty_world_def
      getDoc_def updateDoc_def db_def merge_fields_def messages_or_empty_def
      newAppointment_def)



text \<open>
  Claim C9. The id that \<open>addMessage\<close> assigns is the clock's reading as a decimal string.
  Appending a message that the list already holds, equal in id, sender, text and
  timestamp, leaves the world as it is; so of two equal sends within one millisecond,
  the second changes nothing.
\<close>

theorem addMessage_same_payload:
  assumes "store w i = Some d"
  shows "(messages d = Some ms \<and> newMessage now m \<in> set ms \<longrightarrow>
            addMessage None now i m w = (Inr (), w)) \<and>
         addMessage None now i m (snd (addMessage None now i m w)) =
           (Inr (), snd (addMessage None now i m w)) \<and>
         msg_id (newMessage now m) = toString now"
proof (intro conjI impI)
  assume "messages d = Some ms \<and> newMessage now m \<in> set ms"
  then show "addMessage None now i m w = (Inr (), w)"
    using assms
    by (simp add: addMessage_ok messages_or_empty_def messages_update_same store_update_same)
next
  let ?d1 = "d\<lparr>messages := Some (array_union (messages_or_empty d) [newMessage now m])\<rparr>"
  let ?w1 = "w\<lparr>store := (store w)(i \<mapsto> ?d1)\<rparr>"
  have 1: "snd (addMessage None now i m w) = ?w1"
    using assms by (simp add: addMessage_ok)
  have 2: "store ?w1 i = Some ?d1" by simp
  have 3: "newMessage now m \<in> set (messages_or_empty ?d1)"
    by (simp add: messages_or_empty_def)
  have "addMessage None now i m ?w1 = (Inr (), ?w1)"
    unfolding addMessage_ok [OF 2] using 3
    by (simp add: messages_or_empty_def)
  then show "addMessage None now i m (snd (addMessage None now i m w)) =
           (Inr (), snd (addMessage None now i m w))"
    by (simp only: 1)
next
  show "msg_id (newMessage now m) = toString now"
    by (simp add: newMessage_def ChatMessageNoId.defs ChatMessage.defs)
qed

theorem addMessage_same_payload_witness:
  "store (snd (addMessage None 2000 ''a1''
        \<lparr>sender = Patient, msg_text = ''hola'', timestamp = 2000\<rparr> world_juan)) ''a1'' =
     Some ((newAppointment 1000 dto_juan)
       \<lparr>messages := Some [\<lparr>sender = Patient, msg_text = ''hola'', timestamp = 2000,
                            msg_id = ''2000''\<rparr>]\<rparr>) \<and>
   addMessage None 2000 ''a1'' \<lparr>sender = Patient, msg_text = ''hola'', timestamp = 2000\<rparr>
       (snd (addMessage None 2000 ''a1''
          \<lparr>sender = Patient, msg_text = ''hola'', timestamp = 2000\<rparr> world_juan)) =
     (Inr (), snd (addMessage None 2000 ''a1''
          \<lparr>sender = Patient, msg_text = ''hola'', timestamp = 2000\<rparr> world_juan)) \<and>
   msg_id (newMessage 2000 \<lparr>sender = Patient, msg_text = ''hola'', timestamp = 2000\<rparr>) =
     ''2000''"
proof -
  have s: "store world_juan ''a1'' = Some (newAppointment 1000 dto_juan)"
    by (simp add: world_juan_def)
  have t: "toString 2000 = ''2000''"
    by (simp add: toString_def digits.simps digit_char_def)
  show ?thesis
    using addMessage_same_payload [OF s, of "[]" 2000
        "\<lparr>sender = Patient, msg_text = ''hola'', timestamp = 2000\<rparr>"]
    by (simp add: addMessage_ok [OF s] t messages_or_empty_def newAppointment_def
        newMessage_def ChatMessageNoId.defs ChatMessage.defs)
qed

section \<open>Cancelling and resuming\<close>

text \<open>
  Claim C4. With a reason that is empty or consists of white space, \<open>handleCancel\<close> does
  nothing: no call reaches the store, the world and the view are as before, and the
  Confirm button is disabled. With any other reason, on an appointment that the view
  holds and the store has, and with the store accepting the write, the document gets
  the status CANCELLED and the reason as entered, in one update. In no case is one of
  the two written without the other.
\<close>

theorem cancel_requires_reason:
  "((\<forall>c\<in>set (cancelReason v). is_whitespace c) \<longrightarrow>
      handleCancel fault v w = (v, w) \<and> confirm_cancel_disabled v) \<and>
   (\<not> (\<forall>c\<in>set (cancelReason v). is_whitespace c) \<and> appointment v = Some a \<and>
    store w (appt_id a) = Some d \<longrightarrow>
      \<not> confirm_cancel_disabled v \<and>
      handleCancel None v w =
        (v\<lparr>showCancelModal := False\<rparr>,
         w\<lparr>store := (store w)(appt_id a \<mapsto>
              d\<lparr>status := CANCELLED, cancellationReason := Some (cancelReason v)\<rparr>)\<rparr>)) \<and>
   (store (snd (handleCancel fault v w)) = store w \<or>
    (\<exists>a d. appointment v = Some a \<and> store w (appt_id a) = Some d \<and>
       store (snd (handleCancel fault v w)) =
         (store w)(appt_id a \<mapsto>
            d\<lparr>status := CANCELLED, cancellationReason := Some (cancelReason v)\<rparr>)))"
proof -
  have blank: "handleCancel fault v w = (v, w) \<and> confirm_cancel_disabled v"
    if "\<forall>c\<in>set (cancelReason v). is_whitespace c"
  proof -
    from that have "trim (cancelReason v) = []" by (simp add: trim_blank_iff)
    then show ?thesis
      by (simp add: handleCancel_def confirm_cancel_disabled_def split: option.splits)
  qed
  have given: "\<not> confirm_cancel_disabled v \<and>
      handleCancel None v w =
        (v\<lparr>showCancelModal := False\<rparr>,
         w\<lparr>store := (store w)(appt_id a \<mapsto>
              d\<lparr>status := CANCELLED, cancellationReason := Some (cancelReason v)\<rparr>)\<rparr>)"
    if h: "\<not> (\<forall>c\<in>set (cancelReason v). is_whitespace c) \<and> appointment v = Some a \<and>
      store w (appt_id a) = Some d"
  proof -
    from h have t: "trim (cancelReason v) \<noteq> []" by (simp add: trim_blank_iff)
    with h show ?thesis
      by (simp add: confirm_cancel_disabled_def handleCancel_def updateAppointment_ok
          merge_fields_def)
  qed
  have together: "store (snd (handleCancel fault v w)) = store w \<or>
    (\<exists>a d. appointment v = Some a \<and> store w (appt_id a) = Some d \<and>
       store (snd (handleCancel fault v w)) =
         (store w)(appt_id a \<mapsto>
            d\<lparr>status := CANCELLED, cancellationReason := Some (cancelReason v)\<rparr>))"
  proof (cases "appointment v")
    case None
    then show ?thesis by (simp add: handleCancel_def)
  next
    case (Some a)
    show ?thesis
    proof (cases "trim (cancelReason v) = []")
      case True
      with Some show ?thesis by (simp add: handleCancel_def)
    next
      case False
      let ?u = "[Set_status (Defined CANCELLED),
                 Set_cancellationReason (Defined (cancelReason v))]"
      have s: "store (snd (handleCancel fault v w)) =
                 store (snd (updateAppointment fault (appt_id a) ?u w))"
        using Some False by (simp add: handleCancel_def split: prod.splits sum.splits)
      from updateAppointment_store [of fault "appt_id a" ?u w] show ?thesis
        unfolding s using Some by (auto simp: merge_fields_def)
    qed
  qed
  from blank given together show ?thesis by blast
qed

theorem cancel_requires_reason_witness:
  "handleCancel None (patient_juan\<lparr>cancelReason := ''  '', showCancelModal := True\<rparr>)
       world_juan =
     (patient_juan\<lparr>cancelReason := ''  '', showCancelModal := True\<rparr>, world_juan) \<and>
   handleCancel None (patient_juan\<lparr>cancelReason := ''Me enferme'', showCancelModal := True\<rparr>)
       world_juan =
     (patient_juan\<lparr>cancelReason := ''Me enferme'', showCancelModal := False\<rparr>,
      world_cancelled)"
proof -
  let ?blank = "patient_juan\<lparr>cancelReason := ''  '', showCancelModal := True\<rparr>"
  let ?given = "patient_juan\<lparr>cancelReason := ''Me enferme'', showCancelModal := True\<rparr>"
  let ?a = "with_id ''a1'' (newAppointment 1000 dto_juan)"
  have b: "\<forall>c\<in>set (cancelReason ?blank). is_whitespace c"
    by (simp add: is_whitespace_def)
  have g: "\<not> (\<forall>c\<in>set (cancelReason ?given). is_whitespace c)"
    by (simp add: is_whitespace_def)
  have a: "appointment ?given = Some ?a" by (simp add: patient_juan_def)
  have i: "appt_id ?a = ''a1''"
    by (simp add: with_id_def AppointmentData.defs Appointment.defs)
  have s: "store world_juan (appt_id ?a) = Some (newAppointment 1000 dto_juan)"
    by (simp add: i world_juan_def)
  from cancel_requires_reason [of ?blank None world_juan ?a "newAppointment 1000 dto_juan"] b
  have 1: "handleCancel None ?blank world_juan = (?blank, world_juan)" by blast
  from cancel_requires_reason [of ?given None world_juan ?a "newAppointment 1000 dto_juan"]
    g a s
  have 2: "handleCancel None ?given world_juan =
        (?given\<lparr>showCancelModal := False\<rparr>,
         world_juan\<lparr>store := (store world_juan)(appt_id ?a \<mapsto>
              (newAppointment 1000 dto_juan)
                \<lparr>status := CANCELLED, cancellationReason := Some (cancelReason ?given)\<rparr>)\<rparr>)"
    by blast
  show ?thesis
    unfolding 1 2 i by (simp add: world_juan_def world_cancelled_def)
qed

lemma updateDoc_skips_undefined:
  "c i = Some d \<Longrightarrow>
   updateDoc \<lparr>ignoreUndefinedProperties = True\<rparr> None c i
       [Set_status (Defined SCHEDULED), Set_cancellationReason Undefined] =
     Inr (c(i \<mapsto> d\<lparr>status := SCHEDULED\<rparr>))"
  by (simp add: updateDoc_def merge_fields_def)

text \<open>
  Claim C5. \<open>handleResume\<close> asks for the status SCHEDULED and passes \<open>undefined\<close> as the
  cancellation reason, which is meant to clear it. The store's client refuses a literal
  with an \<open>undefined\<close> member, \<open>updateAppointment\<close> logs the error and resolves, and so a
  resume never changes the collection: on the cancelled appointment of the example the
  status stays CANCELLED and the reason stays. (With \<open>ignoreUndefinedProperties\<close> the
  member would be skipped, lemma \<open>updateDoc_skips_undefined\<close>: the reason would stay
  as well.)
\<close>

theorem resume_is_refused:
  "store (snd (handleResume confirmed fault v w)) = store w \<and>
   handleResume True None patient_cancelled world_cancelled =
     (patient_cancelled,
      console_error ''Error updating appointment:'' InvalidArgument world_cancelled) \<and>
   map_option status (store world_cancelled ''a1'') = Some CANCELLED \<and>
   map_option cancellationReason (store world_cancelled ''a1'') = Some (Some ''Me enferme'')"
proof (intro conjI)
  show "store (snd (handleResume confirmed fault v w)) = store w"
    by (simp add: handleResume_def updateAppointment_def updateDoc_def db_def
        console_error_def split: option.splits prod.splits sum.splits)
  show "handleResume True None patient_cancelled world_cancelled =
     (patient_cancelled,
      console_error ''Error updating appointment:'' InvalidArgument world_cancelled)"
    by (simp add: handleResume_def patient_cancelled_def updateAppointment_def
        updateDoc_def db_def)
  show "map_option status (store world_cancelled ''a1'') = Some CANCELLED"
    by (simp add: world_cancelled_def)
  show "map_option cancellationReason (store world_cancelled ''a1'') = Some (Some ''Me enferme'')"
    by (simp add: world_cancelled_def)
qed

section \<open>The status COMPLETED\<close>

lemma apply_update_status:
  "u \<noteq> Set_status (Defined COMPLETED) \<Longrightarrow> status d \<noteq> COMPLETED \<Longrightarrow>
   status (apply_update u d) \<noteq> COMPLETED"
  by (cases "(u, d)" rule: apply_update.cases) auto

lemma merge_fields_status:
  "list_all (\<lambda>u. u \<noteq> Set_status (Defined COMPLETED)) updates \<Longrightarrow> status d \<noteq> COMPLETED \<Longrightarrow>
   status (merge_fields updates d) \<noteq> COMPLETED"
  unfolding merge_fields_def
  by (induction updates arbitrary: d) (simp_all add: apply_update_status)

lemma never_completed_upd:
  "never_completed c \<Longrightarrow> status d \<noteq> COMPLETED \<Longrightarrow> never_completed (c(i \<mapsto> d))"
  by (simp add: never_completed_def)

lemma updateAppointment_never_completed:
  assumes "list_all (\<lambda>u. u \<noteq> Set_status (Defined COMPLETED)) updates"
    and "never_completed (store w)"
  shows "never_completed (store (snd (updateAppointment fault i updates w)))"
proof -
  from updateAppointment_store [of fault i updates w] show ?thesis
  proof
    assume "store (snd (updateAppointment fault i updates w)) = store w"
    with assms(2) show ?thesis by simp
  next
    assume "\<exists>d. store w i = Some d \<and> \<not> list_ex is_undefined updates \<and>
        store (snd (updateAppointment fault i updates w)) =
          (store w)(i \<mapsto> merge_fields updates d)"
    then obtain d where d: "store w i = Some d"
      and s: "store (snd (updateAppointment fault i updates w)) =
          (store w)(i \<mapsto> merge_fields updates d)" by blast
    from assms(2) d have "status d \<noteq> COMPLETED" by (simp add: never_completed_def)
    with assms(1) have "status (merge_fields updates d) \<noteq> COMPLETED"
      by (rule merge_fields_status)
    with assms(2) show ?thesis unfolding s by (rule never_completed_upd)
  qed
qed

lemma addMessage_store_as_update:
  "store (snd (addMessage fault now i m w)) =
   store (snd (updateAppointment fault i
      [Set_messages (Defined (arrayUnion [newMessage now m]))] w))"
  by (simp add: addMessage_def updateAppointment_def console_error_def split: sum.splits)

lemma addMessage_never_completed:
  "never_completed (store w) \<Longrightarrow> never_completed (store (snd (addMessage fault now i m w)))"
  unfolding addMessage_store_as_update
  by (rule updateAppointment_never_completed) simp_all

lemma createAppointment_never_completed:
  "never_completed (store w) \<Longrightarrow>
   never_completed (store (snd (createAppointment fault newId now dto w)))"
  by (auto simp: createAppointment_def addDoc_def console_error_def alert_def Let_def
      newAppointment_def never_completed_def split: option.splits)

lemma deleteAppointment_never_completed:
  "never_completed (store w) \<Longrightarrow> never_completed (store (snd (deleteAppointment fault i w)))"
  by (auto simp: deleteAppointment_def deleteDoc_def console_error_def never_completed_def
      split: option.splits)

lemma store_alert [simp]: "store (alert a w) = store w"
  by (simp add: alert_def)

lemma snd_handleSendChat:
  "snd (handleSendChat fault ts now i v w) =
     (if trim (chatMessage v) = [] then w
      else snd (addMessage fault now i
                  \<lparr>sender = Doctor, msg_text = chatMessage v, timestamp = ts\<rparr> w))"
  by (simp add: handleSendChat_def split: prod.splits sum.splits)

lemma snd_handleSendMessage:
  "snd (handleSendMessage fault ts now v w) =
     (case appointment v of
        None \<Rightarrow> w
      | Some a \<Rightarrow>
          if trim (messageText v) = [] then w
          else snd (addMessage fault now (appt_id a)
                      \<lparr>sender = Patient, msg_text = messageText v, timestamp = ts\<rparr> w))"
  by (simp add: handleSendMessage_def split: option.splits prod.splits sum.splits)

lemma snd_handleCancel:
  "snd (handleCancel fault v w) =
     (case appointment v of
        None \<Rightarrow> w
      | Some a \<Rightarrow>
          if trim (cancelReason v) = [] then w
          else snd (updateAppointment fault (appt_id a)
                      [Set_status (Defined CANCELLED),
                       Set_cancellationReason (Defined (cancelReason v))] w))"
  by (simp add: handleCancel_def split: option.splits prod.splits sum.splits)

lemma snd_handleResume:
  "snd (handleResume confirmed fault v w) =
     (case appointment v of
        None \<Rightarrow> w
      | Some a \<Rightarrow>
          if confirmed then
            snd (updateAppointment fault (appt_id a)
                   [Set_status (Defined SCHEDULED), Set_cancellationReason Undefined] w)
          else w)"
  by (simp add: handleResume_def split: option.splits prod.splits)

lemma store_handleSubmit:
  "store (snd (handleSubmit fault newId now v w)) = store w \<or>
   (\<exists>i updates. list_all (\<lambda>u. u \<noteq> Set_status (Defined COMPLETED)) updates \<and>
      store (snd (handleSubmit fault newId now v w)) =
        store (snd (updateAppointment fault i updates w))) \<or>
   (\<exists>dto. store (snd (handleSubmit fault newId now v w)) =
        store (snd (createAppointment fault newId now dto w)))"
proof -
  let ?fd = "formData v"
  let ?ft = "if FormData.treatmentType ?fd = ''manual'' then customTreatment ?fd
             else FormData.treatmentType ?fd"
  let ?u = "[Set_patientName (Defined (FormData.patientName ?fd)),
             Set_patientEmail (Defined (FormData.patientEmail ?fd)),
             Set_patientPhone (Defined (FormData.patientPhone ?fd)),
             Set_date (Defined (FormData.date ?fd)),
             Set_time (Defined (FormData.time ?fd)),
             Set_treatmentType (Defined ?ft)]"
  let ?dto = "\<lparr>NewAppointmentDTO.patientName = FormData.patientName ?fd,
               patientEmail = FormData.patientEmail ?fd,
               patientPhone = FormData.patientPhone ?fd,
               date = FormData.date ?fd,
               time = FormData.time ?fd,
               treatmentType = ?ft\<rparr>"
  consider (blank) "trim ?ft = []"
    | (edit) "trim ?ft \<noteq> []" "truthy (editingId v)"
    | (new) "trim ?ft \<noteq> []" "\<not> truthy (editingId v)"
    by blast
  then show ?thesis
  proof cases
    case blank
    then have "store (snd (handleSubmit fault newId now v w)) = store w"
      by (simp add: handleSubmit_def Let_def)
    then show ?thesis by simp
  next
    case edit
    then have "store (snd (handleSubmit fault newId now v w)) =
        store (snd (updateAppointment fault (the (editingId v)) ?u w))"
      by (simp add: handleSubmit_def Let_def split: prod.splits sum.splits)
    moreover have "list_all (\<lambda>u. u \<noteq> Set_status (Defined COMPLETED)) ?u" by simp
    ultimately show ?thesis by blast
  next
    case new
    then have "store (snd (handleSubmit fault newId now v w)) =
        store (snd (createAppointment fault newId now ?dto w))"
      by (simp add: handleSubmit_def Let_def split: prod.splits sum.splits)
    then show ?thesis by blast
  qed
qed

lemma handleSubmit_never_completed:
  assumes "never_completed (store w)"
  shows "never_completed (store (snd (handleSubmit fault newId now v w)))"
  using store_handleSubmit [of fault newId now v w] assms
  by (auto simp: updateAppointment_never_completed createAppointment_never_completed)

lemma perform_never_completed:
  assumes "never_completed (store w)"
  shows "never_completed (store (perform a w))"
proof (cases a)
  case (AdminSubmit fault newId now v)
  then show ?thesis using assms by (simp add: handleSubmit_never_completed)
next
  case (AdminDelete confirmed fault i)
  then show ?thesis using assms
    by (simp add: handleDelete_def deleteAppointment_never_completed)
next
  case (AdminChatSubmit fault ts now v)
  then show ?thesis using assms
    by (simp add: chat_onSubmit_def snd_handleSendChat addMessage_never_completed)
next
  case (PatientSendMessage fault ts now v)
  then show ?thesis using assms
    by (simp add: snd_handleSendMessage addMessage_never_completed split: option.splits)
next
  case (PatientCancel fault v)
  then show ?thesis using assms
    by (simp add: snd_handleCancel updateAppointment_never_completed split: option.splits)
next
  case (PatientResume confirmed fault v)
  then show ?thesis using assms
    by (simp add: snd_handleResume updateAppointment_never_completed split: option.splits)
qed

text \<open>
  Claim C8. No operation of the system gives an appointment the status COMPLETED: the
  form creates with SCHEDULED or edits without touching the status, cancelling asks for
  CANCELLED, resuming asks for SCHEDULED, messages and deletion leave the status alone.
  So from a collection without a completed appointment, such as the empty one, every
  sequence of operations, in any view state and with any failures of the store, leads
  to a collection without a completed appointment.
\<close>

theorem status_never_completed:
  assumes "never_completed (store w)"
  shows "never_completed (store (run acts w))"
  using assms unfolding run_def
  by (induction acts arbitrary: w) (simp_all add: perform_never_completed)

theorem status_never_completed_witness:
  "never_completed (store empty_world) \<and>
   store (run lifecycle_juan empty_world) = store world_cancelled \<and>
   map_option status (store (run lifecycle_juan empty_world) ''a1'') = Some CANCELLED \<and>
   never_completed (store (run lifecycle_juan empty_world))"
proof -
  have e: "never_completed (store empty_world)"
    by (simp add: never_completed_def empty_world_def)
  have t: "trim ''Limpieza General'' \<noteq> []" "trim ''Me enferme'' \<noteq> []"
    by (simp_all add: trim_blank_iff is_whitespace_def)
  have r: "store (run lifecycle_juan empty_world) = store world_cancelled"
    by (simp add: run_def lifecycle_juan_def handleSubmit_def admin_juan_def admin_initial_def
        initial_form_def truthy_def Let_def t createAppointment_def addDoc_def empty_world_def
        handleCancel_def patient_juan_def updateAppointment_def updateDoc_def db_def
        merge_fields_def with_id_def AppointmentData.defs Appointment.defs
        handleResume_def patient_cancelled_def console_error_def world_cancelled_def
        world_juan_def dto_juan_def newAppointment_def)
  from status_never_completed [OF e, of lifecycle_juan] e r show ?thesis
    by (simp add: world_cancelled_def)
qed

section \<open>Chat on a cancelled appointment\<close>

lemma patient_chat_disabled_when_cancelled:
  "appointment v = Some a \<Longrightarrow> status a = CANCELLED \<Longrightarrow>
   message_input_disabled a \<and> send_button_disabled v a \<and> \<not> patient_can_send v"
  by (simp add: message_input_disabled_def send_button_disabled_def patient_can_send_def
      isCancelled_def)

lemma click_chat_needs_button:
  "isChatOpen (click_chat appt v) \<noteq> isChatOpen v \<Longrightarrow> status appt \<noteq> CANCELLED"
  by (auto simp: click_chat_def chat_button_rendered_def split: if_splits)

text \<open>
  Claim C10. The patient's view disables the input and the send button of its chat on a
  cancelled appointment (lemma \<open>patient_chat_disabled_when_cancelled\<close>), and the
  dashboard shows the Chat button on the cards of appointments that are not cancelled
  only (lemma \<open>click_chat_needs_button\<close>). The dashboard's chat modal has no such gate:
  opened while the appointment was scheduled, it stays open when the next snapshot shows
  the appointment cancelled, its send button is enabled, and a submit appends the
  doctor's message to the cancelled appointment.
\<close>

theorem admin_chat_outlives_cancellation:
  "chat_button_rendered (with_id ''a1'' (newAppointment 1000 dto_juan)) \<and>
   isChatOpen admin_chatting = Some ''a1'' \<and>
   map_option status (chat_appointment admin_chatting) = Some CANCELLED \<and>
   admin_can_send admin_chatting \<and>
   map_option status (store world_cancelled ''a1'') = Some CANCELLED \<and>
   map_option messages
       (store (snd (chat_onSubmit None 3000 3001 admin_chatting world_cancelled)) ''a1'') =
     Some (Some [\<lparr>sender = Doctor, msg_text = ''hola'', timestamp = 3000,
                  msg_id = ''3001''\<rparr>])"
proof -
  have t: "trim ''hola'' \<noteq> []"
    by (simp add: trim_blank_iff is_whitespace_def)
  have n: "toString 3001 = ''3001''"
    by (simp add: toString_def digits.simps digit_char_def)
  have c: "admin_chatting =
     \<lparr>appointments = [with_id ''a1'' ((newAppointment 1000 dto_juan)
                  \<lparr>status := CANCELLED, cancellationReason := Some ''Me enferme''\<rparr>)],
      loading = False, error = None, isModalOpen = False, editingId = None,
      isChatOpen = Some ''a1'', chatMessage = ''hola'', formData = initial_form\<rparr>"
    by (simp add: admin_chatting_def admin_subscription_def subscribeToAppointments_def
        snapshot_appointments_def click_chat_def chat_button_rendered_def admin_initial_def
        with_id_def AppointmentData.defs Appointment.defs newAppointment_def)
  show ?thesis
    unfolding c
    by (simp add: chat_button_rendered_def chat_appointment_def admin_can_send_def
        chat_modal_rendered_def chat_send_disabled_def truthy_def t n chat_onSubmit_def
        handleSendChat_def addMessage_def updateDoc_def db_def merge_fields_def
        messages_or_empty_def newMessage_def ChatMessageNoId.defs ChatMessage.defs
        world_cancelled_def world_juan_def with_id_def AppointmentData.defs Appointment.defs
        newAppointment_def)
qed

end
